theory Spec2Isabelle
  imports Main
begin

section \<open>Problem details (RFC 7807) responses: the embedding\<close>

text \<open>
  The package \<^verbatim>\<open>rfc7807\<close> keeps a registry (\<^verbatim>\<open>RFC7807\<close>) of problem titles. A
  registration (\<^verbatim>\<open>HtmlDoc\<close> and its front ends \<^verbatim>\<open>Doc\<close>, \<^verbatim>\<open>TemplateDoc\<close>,
  \<^verbatim>\<open>MarkdownDoc\<close>) installs a documentation route and stores a closure under the title;
  \<^verbatim>\<open>Error\<close> dispatches to the stored closure or falls back to an ad-hoc problem.

  Go strings and byte slices are byte sequences: both are \<open>string\<close> here (a \<open>char\<close> is one
  byte). Methods with a pointer receiver take the registry and return it, updated, beside
  their result. A panic is a value of the result type.
\<close>

subsection \<open>Values, extensions, problems\<close>

type_synonym bytes = string

text \<open>
  An extension value has Go type \<^verbatim>\<open>interface{}\<close>. The data model of the specification
  restricts it to JSON-serialisable data; this is the type of such data.
\<close>

datatype jvalue =
    JNull
  | JBool bool
  | JNumber int
  | JString string
  | JArray "jvalue list"
  | JObject "(string \<times> jvalue) list"

text \<open>
  The functions take \<^verbatim>\<open>...*Extension\<close>: a list of pointers, each of which may be nil
  (\<open>None\<close>). \<^verbatim>\<open>Ext\<close> returns a pointer to a new extension.
\<close>

record Extension =
  Key :: string
  Value :: jvalue

definition Ext :: "string \<Rightarrow> jvalue \<Rightarrow> Extension option" where
  "Ext key value = Some \<lparr>Key = key, Value = value\<rparr>"

text \<open>The Go map \<^verbatim>\<open>map[string]interface{}\<close> that is encoded as the body.\<close>

type_synonym problem = "string \<rightharpoonup> jvalue"

text \<open>
  The ways a call can end other than by returning: the two template errors that
  \<^verbatim>\<open>TemplateDoc\<close> returns, and the panics (a nil pointer dereferenced, a status code
  that \<^verbatim>\<open>WriteHeader\<close> refuses).
\<close>

datatype failure =
    TemplateParseError string
  | TemplateExecError string
  | NilPointerDereference
  | InvalidWriteHeaderCode int

subsection \<open>The response writer\<close>

text \<open>
  \<^verbatim>\<open>http.ResponseWriter\<close> is an interface of \<^verbatim>\<open>net/http\<close>. The model is the writer
  that a \<^verbatim>\<open>net/http\<close> server hands to a handler (HTTP/1.x, connection not hijacked):
  \<^item> \<^verbatim>\<open>Header()\<close> returns the header map that \<^verbatim>\<open>WriteHeader\<close> will send. Changing the
    map after the final header has been written has no effect on the response: the
    writer keeps the live map (\<open>rw_header\<close>) and the copy that went out with the status
    (\<open>rw_sent\<close>).
  \<^item> \<^verbatim>\<open>WriteHeader\<close> does nothing when the header has been written; otherwise it
    panics for a code outside 100..999; a code from 100 to 199 other than 101 sends an
    informational response with the header map of the moment (\<open>rw_interim\<close>) and leaves
    the final header unwritten; any other code is final. A final header reads a
    \<^verbatim>\<open>Content-Length\<close> from the map: a non-negative decimal number becomes the limit
    of the body, anything else is deleted from the map.
  \<^item> \<^verbatim>\<open>Write\<close> calls \<^verbatim>\<open>WriteHeader(http.StatusOK)\<close> first when no final header has
    been written. It then returns without writing when the data is empty, when the
    status allows no body (1xx, 204, 304), or when the data would exceed the
    \<^verbatim>\<open>Content-Length\<close>; for a HEAD request (\<open>rw_head\<close>) the data is counted and
    dropped. The error \<^verbatim>\<open>Write\<close> returns is ignored by every caller in the package.
  What the server adds to the header on its own (a content type guessed from the body
  when none was sent, a date, the framing of the body) is outside the model: \<open>rw_sent\<close>
  holds the header lines of the handler that are in effect.
\<close>

record ResponseWriter =
  rw_head :: bool
  rw_header :: "string \<rightharpoonup> string"
  rw_wroteHeader :: bool
  rw_status :: int
  rw_sent :: "string \<rightharpoonup> string"
  rw_interim :: "(int \<times> (string \<rightharpoonup> string)) list"
  rw_contentLength :: int
  rw_written :: int
  rw_body :: bytes

text \<open>The writer of a request that is not a HEAD request, before the handler runs.\<close>

definition NewResponseWriter :: ResponseWriter where
  "NewResponseWriter =
     \<lparr>rw_head = False, rw_header = Map.empty, rw_wroteHeader = False, rw_status = 0,
      rw_sent = Map.empty, rw_interim = [], rw_contentLength = - 1, rw_written = 0,
      rw_body = []\<rparr>"

text \<open>
  \<^verbatim>\<open>strconv.ParseInt(s, 10, 64)\<close>: an optional sign, then one or more decimal digits,
  within the range of a 64-bit integer.
\<close>

definition isDigit :: "char \<Rightarrow> bool" where
  "isDigit c = (48 \<le> (of_char c :: nat) \<and> (of_char c :: nat) \<le> 57)"

fun digits_value :: "int \<Rightarrow> string \<Rightarrow> int" where
  "digits_value acc [] = acc"
| "digits_value acc (c # cs) = digits_value (10 * acc + (of_char c - 48)) cs"

definition ParseUint :: "string \<Rightarrow> int option" where
  "ParseUint s = (if s \<noteq> [] \<and> list_all isDigit s then Some (digits_value 0 s) else None)"

definition ParseInt :: "string \<Rightarrow> int option" where
  "ParseInt s =
     (case s of
        [] \<Rightarrow> None
      | c # cs \<Rightarrow>
          (if c = CHR ''-'' then
             (case ParseUint cs of
                None \<Rightarrow> None
              | Some n \<Rightarrow> if 9223372036854775808 < n then None else Some (- n))
           else
             (case ParseUint (if c = CHR ''+'' then cs else s) of
                None \<Rightarrow> None
              | Some n \<Rightarrow> if 9223372036854775807 < n then None else Some n)))"

definition finalHeader :: "int \<Rightarrow> ResponseWriter \<Rightarrow> ResponseWriter" where
  "finalHeader code w =
     (let w = w\<lparr>rw_wroteHeader := True, rw_status := code, rw_sent := rw_header w\<rparr>
      in case rw_header w ''Content-Length'' of
           None \<Rightarrow> w
         | Some cl \<Rightarrow>
             (if cl = [] then w
              else (case ParseInt cl of
                      None \<Rightarrow> w\<lparr>rw_header := (rw_header w)(''Content-Length'' := None)\<rparr>
                    | Some v \<Rightarrow>
                        if 0 \<le> v then w\<lparr>rw_contentLength := v\<rparr>
                        else w\<lparr>rw_header := (rw_header w)(''Content-Length'' := None)\<rparr>)))"

definition WriteHeader :: "int \<Rightarrow> ResponseWriter \<Rightarrow> failure + ResponseWriter" where
  "WriteHeader code w =
     (if rw_wroteHeader w then Inr w
      else if code < 100 \<or> 999 < code then Inl (InvalidWriteHeaderCode code)
      else if 100 \<le> code \<and> code \<le> 199 \<and> code \<noteq> 101
        then Inr (w\<lparr>rw_interim := rw_interim w @ [(code, rw_header w)]\<rparr>)
      else Inr (finalHeader code w))"

definition Header_Set :: "string \<Rightarrow> string \<Rightarrow> ResponseWriter \<Rightarrow> ResponseWriter" where
  "Header_Set k v w = w\<lparr>rw_header := (rw_header w)(k \<mapsto> v)\<rparr>"

definition bodyAllowedForStatus :: "int \<Rightarrow> bool" where
  "bodyAllowedForStatus status =
     (if 100 \<le> status \<and> status \<le> 199 then False
      else if status = 204 then False
      else if status = 304 then False
      else True)"

definition Write :: "bytes \<Rightarrow> ResponseWriter \<Rightarrow> ResponseWriter" where
  "Write data w =
     (let w = (if rw_wroteHeader w then w else finalHeader 200 w)
      in if data = [] then w
         else if bodyAllowedForStatus (rw_status w) then
           (let w = w\<lparr>rw_written := rw_written w + int (length data)\<rparr>
            in if rw_contentLength w \<noteq> - 1 \<and> rw_contentLength w < rw_written w then w
               else if rw_head w then w
               else w\<lparr>rw_body := rw_body w @ data\<rparr>)
         else w)"

subsection \<open>Library functions the package calls\<close>

text \<open>
  The URL parser (\<^verbatim>\<open>url.Parse\<close>), the template engine (\<^verbatim>\<open>html/template\<close>), the
  Markdown renderer (\<^verbatim>\<open>blackfriday\<close>) and the JSON encoder (\<^verbatim>\<open>encoding/json\<close>) are not
  part of the package. They are parameters of the model, collected in one record.
  \<^verbatim>\<open>url.Parse\<close> and both template steps can fail: \<open>Inl\<close> is the error message. The
  URL value, its printer \<^verbatim>\<open>URL.String\<close>, \<^verbatim>\<open>url.PathEscape\<close>, \<^verbatim>\<open>path.Join\<close> and
  \<^verbatim>\<open>http.StatusText\<close> are modelled below.
\<close>

record Userinfo =
  username :: string
  password :: string
  passwordSet :: bool

record net_URL =
  Scheme :: string
  Opaque :: string
  User :: "Userinfo option"
  Host :: string
  Path :: string
  RawPath :: string
  OmitHost :: bool
  ForceQuery :: bool
  RawQuery :: string
  Fragment :: string
  RawFragment :: string

record library =
  url_Parse :: "string \<Rightarrow> string + net_URL"
  template_Parse :: "string \<Rightarrow> string + string"
  template_Execute :: "string \<Rightarrow> (string \<rightharpoonup> string) \<Rightarrow> string + bytes"
  MarkdownCommon :: "bytes \<Rightarrow> bytes"
  json_Encode :: "string \<Rightarrow> string \<Rightarrow> problem \<Rightarrow> bytes"

subsection \<open>Escaping and printing a URL\<close>

text \<open>
  \<^verbatim>\<open>shouldEscape\<close> of \<^verbatim>\<open>net/url\<close>, for the modes the printer and \<^verbatim>\<open>PathEscape\<close> use.
  Letters, digits and \<^verbatim>\<open>- _ . ~\<close> are never escaped. Of the reserved characters
  \<^verbatim>\<open>$ & + , / : ; = ? @\<close> a whole path (\<open>encodePath\<close>) escapes \<^verbatim>\<open>?\<close> only, one path
  segment (\<open>encodePathSegment\<close>) escapes \<^verbatim>\<open>/ ; , ?\<close>, user and password escape
  \<^verbatim>\<open>@ / ? :\<close>, a fragment escapes none. Every other byte is escaped, but for the
  bytes a host and a fragment let through. An escaped byte is \<^verbatim>\<open>%\<close> and two upper-case
  hexadecimal digits.
\<close>

definition upperhex :: string where
  "upperhex = ''0123456789ABCDEF''"

definition isAlnum :: "char \<Rightarrow> bool" where
  "isAlnum c =
     (let n = (of_char c :: nat)
      in (97 \<le> n \<and> n \<le> 122) \<or> (65 \<le> n \<and> n \<le> 90) \<or> (48 \<le> n \<and> n \<le> 57))"

datatype encoding = encodePath | encodePathSegment | encodeHost | encodeUserPassword | encodeFragment

definition shouldEscape :: "char \<Rightarrow> encoding \<Rightarrow> bool" where
  "shouldEscape c mode =
     (if isAlnum c then False
      else if mode = encodeHost \<and> (c \<in> set ''!$&()*+,;=:[]<>'' \<or> c = CHR 0x27 \<or> c = CHR 0x22)
        then False
      else if c \<in> set ''-_.~'' then False
      else if c \<in> set ''$&+,/:;=?@'' \<and> mode \<noteq> encodeHost then
        (case mode of
           encodePath \<Rightarrow> c = CHR ''?''
         | encodePathSegment \<Rightarrow> c = CHR ''/'' \<or> c = CHR '';'' \<or> c = CHR '','' \<or> c = CHR ''?''
         | encodeUserPassword \<Rightarrow> c = CHR ''@'' \<or> c = CHR ''/'' \<or> c = CHR ''?'' \<or> c = CHR '':''
         | encodeFragment \<Rightarrow> False
         | encodeHost \<Rightarrow> True)
      else if mode = encodeFragment \<and> c \<in> set ''!()*'' then False
      else True)"

definition escape_byte :: "encoding \<Rightarrow> char \<Rightarrow> string" where
  "escape_byte mode c =
     (if shouldEscape c mode
      then [CHR ''%'', upperhex ! ((of_char c :: nat) div 16), upperhex ! ((of_char c :: nat) mod 16)]
      else [c])"

definition escape :: "string \<Rightarrow> encoding \<Rightarrow> string" where
  "escape s mode = concat (map (escape_byte mode) s)"

definition PathEscape :: "string \<Rightarrow> string" where
  "PathEscape s = escape s encodePathSegment"

text \<open>
  \<^verbatim>\<open>unescape\<close> for a path or a fragment: every \<^verbatim>\<open>%\<close> must be followed by two
  hexadecimal digits and stands for that byte. \<^verbatim>\<open>validEncoded\<close> tells whether a string
  is an acceptable encoding in a mode.
\<close>

definition ishex :: "char \<Rightarrow> bool" where
  "ishex c =
     (let n = (of_char c :: nat)
      in (48 \<le> n \<and> n \<le> 57) \<or> (97 \<le> n \<and> n \<le> 102) \<or> (65 \<le> n \<and> n \<le> 70))"

definition unhex :: "char \<Rightarrow> nat" where
  "unhex c =
     (let n = (of_char c :: nat)
      in if 48 \<le> n \<and> n \<le> 57 then n - 48
         else if 97 \<le> n \<and> n \<le> 102 then n - 97 + 10
         else if 65 \<le> n \<and> n \<le> 70 then n - 65 + 10
         else 0)"

fun unescape :: "string \<Rightarrow> string option" where
  "unescape (c # a # b # s) =
     (if c = CHR ''%'' then
        (if ishex a \<and> ishex b then map_option ((#) (char_of (unhex a * 16 + unhex b))) (unescape s)
         else None)
      else map_option ((#) c) (unescape (a # b # s)))"
| "unescape (c # s) = (if c = CHR ''%'' then None else map_option ((#) c) (unescape s))"
| "unescape [] = Some []"

definition validEncoded :: "string \<Rightarrow> encoding \<Rightarrow> bool" where
  "validEncoded s mode =
     list_all (\<lambda>c. if c \<in> set ''!$&()*+,;=:@[]%'' \<or> c = CHR 0x27 then True else \<not> shouldEscape c mode) s"

definition EscapedPath :: "net_URL \<Rightarrow> string" where
  "EscapedPath u =
     (if RawPath u \<noteq> [] \<and> validEncoded (RawPath u) encodePath \<and> unescape (RawPath u) = Some (Path u)
      then RawPath u
      else if Path u = ''*'' then ''*''
      else escape (Path u) encodePath)"

definition EscapedFragment :: "net_URL \<Rightarrow> string" where
  "EscapedFragment u =
     (if RawFragment u \<noteq> [] \<and> validEncoded (RawFragment u) encodeFragment
           \<and> unescape (RawFragment u) = Some (Fragment u)
      then RawFragment u
      else escape (Fragment u) encodeFragment)"

definition Userinfo_String :: "Userinfo \<Rightarrow> string" where
  "Userinfo_String ui =
     escape (username ui) encodeUserPassword
       @ (if passwordSet ui then '':'' @ escape (password ui) encodeUserPassword else [])"

text \<open>
  \<^verbatim>\<open>URL.String\<close>: scheme, then the opaque part or the authority and the path, then query
  and fragment. The path is printed by \<^verbatim>\<open>EscapedPath\<close>, which percent-encodes the
  \<open>Path\<close> field unless \<open>RawPath\<close> is a valid encoding of it.
\<close>

definition URL_authority :: "net_URL \<Rightarrow> string" where
  "URL_authority u =
     (if Scheme u = [] \<and> Host u = [] \<and> User u = None then []
      else if OmitHost u \<and> Host u = [] \<and> User u = None then []
      else
        (if Host u = [] \<and> Path u = [] \<and> User u = None then [] else ''//'')
          @ (case User u of None \<Rightarrow> [] | Some ui \<Rightarrow> Userinfo_String ui @ ''@'')
          @ (if Host u = [] then [] else escape (Host u) encodeHost))"

definition URL_String :: "net_URL \<Rightarrow> string" where
  "URL_String u =
     (let buf = (if Scheme u \<noteq> [] then Scheme u @ '':'' else []);
          buf =
            (if Opaque u \<noteq> [] then buf @ Opaque u
             else
               (let buf = buf @ URL_authority u;
                    path = EscapedPath u;
                    buf = (if path \<noteq> [] \<and> hd path \<noteq> CHR ''/'' \<and> Host u \<noteq> [] then buf @ ''/'' else buf);
                    buf = (if buf = [] \<and> CHR '':'' \<in> set (takeWhile (\<lambda>c. c \<noteq> CHR ''/'') path)
                           then buf @ ''./'' else buf)
                in buf @ path));
          buf = (if ForceQuery u \<or> RawQuery u \<noteq> [] then buf @ ''?'' @ RawQuery u else buf)
      in if Fragment u \<noteq> [] then buf @ ''#'' @ EscapedFragment u else buf)"

subsection \<open>Path joining and status texts\<close>

text \<open>
  \<^verbatim>\<open>path.Join\<close> joins its non-empty leading elements with slashes and cleans the result;
  \<^verbatim>\<open>path.Clean\<close> removes empty and \<^verbatim>\<open>.\<close> elements, removes a \<^verbatim>\<open>..\<close> element with the
  element before it, drops \<^verbatim>\<open>..\<close> at the root, and returns \<^verbatim>\<open>.\<close> for an empty
  result.
\<close>

fun split_slash :: "string \<Rightarrow> string list" where
  "split_slash [] = [[]]"
| "split_slash (c # cs) =
     (if c = CHR ''/'' then [] # split_slash cs
      else (case split_slash cs of [] \<Rightarrow> [[c]] | x # xs \<Rightarrow> (c # x) # xs))"

fun clean_elems :: "bool \<Rightarrow> string list \<Rightarrow> string list \<Rightarrow> string list" where
  "clean_elems rooted out [] = out"
| "clean_elems rooted out (e # es) =
     (if e = [] \<or> e = ''.'' then clean_elems rooted out es
      else if e = ''..'' then
        (if out \<noteq> [] \<and> last out \<noteq> ''..'' then clean_elems rooted (butlast out) es
         else if rooted then clean_elems rooted out es
         else clean_elems rooted (out @ [e]) es)
      else clean_elems rooted (out @ [e]) es)"

fun join_slash :: "string list \<Rightarrow> string" where
  "join_slash [] = []"
| "join_slash [e] = e"
| "join_slash (e # es) = e @ ''/'' @ join_slash es"

definition path_Clean :: "string \<Rightarrow> string" where
  "path_Clean p =
     (case p of [] \<Rightarrow> ''.''
      | c # _ \<Rightarrow>
          (let rooted = (c = CHR ''/'');
               out = (if rooted then ''/'' else []) @ join_slash (clean_elems rooted [] (split_slash p))
           in if out = [] then ''.'' else out))"

fun join_buf :: "string \<Rightarrow> string list \<Rightarrow> string" where
  "join_buf buf [] = buf"
| "join_buf buf (e # es) =
     join_buf (if buf \<noteq> [] \<or> e \<noteq> [] then (if buf \<noteq> [] then buf @ ''/'' else buf) @ e else buf) es"

definition path_Join :: "string list \<Rightarrow> string" where
  "path_Join elem = (if concat elem = [] then [] else path_Clean (join_buf [] elem))"

text \<open>\<^verbatim>\<open>http.StatusText\<close>: the text of a known status code, the empty string otherwise.\<close>

definition StatusText :: "int \<Rightarrow> string" where
  "StatusText code =
     (
      if code = 100 then ''Continue'' else
      if code = 101 then ''Switching Protocols'' else
      if code = 102 then ''Processing'' else
      if code = 103 then ''Early Hints'' else
      if code = 200 then ''OK'' else
      if code = 201 then ''Created'' else
      if code = 202 then ''Accepted'' else
      if code = 203 then ''Non-Authoritative Information'' else
      if code = 204 then ''No Content'' else
      if code = 205 then ''Reset Content'' else
      if code = 206 then ''Partial Content'' else
      if code = 207 then ''Multi-Status'' else
      if code = 208 then ''Already Reported'' else
      if code = 226 then ''IM Used'' else
      if code = 300 then ''Multiple Choices'' else
      if code = 301 then ''Moved Permanently'' else
      if code = 302 then ''Found'' else
      if code = 303 then ''See Other'' else
      if code = 304 then ''Not Modified'' else
      if code = 305 then ''Use Proxy'' else
      if code = 307 then ''Temporary Redirect'' else
      if code = 308 then ''Permanent Redirect'' else
      if code = 400 then ''Bad Request'' else
      if code = 401 then ''Unauthorized'' else
      if code = 402 then ''Payment Required'' else
      if code = 403 then ''Forbidden'' else
      if code = 404 then ''Not Found'' else
      if code = 405 then ''Method Not Allowed'' else
      if code = 406 then ''Not Acceptable'' else
      if code = 407 then ''Proxy Authentication Required'' else
      if code = 408 then ''Request Timeout'' else
      if code = 409 then ''Conflict'' else
      if code = 410 then ''Gone'' else
      if code = 411 then ''Length Required'' else
      if code = 412 then ''Precondition Failed'' else
      if code = 413 then ''Request Entity Too Large'' else
      if code = 414 then ''Request URI Too Long'' else
      if code = 415 then ''Unsupported Media Type'' else
      if code = 416 then ''Requested Range Not Satisfiable'' else
      if code = 417 then ''Expectation Failed'' else
      if code = 418 then ''I'' @ [CHR 0x27] @ ''m a teapot'' else
      if code = 421 then ''Misdirected Request'' else
      if code = 422 then ''Unprocessable Entity'' else
      if code = 423 then ''Locked'' else
      if code = 424 then ''Failed Dependency'' else
      if code = 425 then ''Too Early'' else
      if code = 426 then ''Upgrade Required'' else
      if code = 428 then ''Precondition Required'' else
      if code = 429 then ''Too Many Requests'' else
      if code = 431 then ''Request Header Fields Too Large'' else
      if code = 451 then ''Unavailable For Legal Reasons'' else
      if code = 500 then ''Internal Server Error'' else
      if code = 501 then ''Not Implemented'' else
      if code = 502 then ''Bad Gateway'' else
      if code = 503 then ''Service Unavailable'' else
      if code = 504 then ''Gateway Timeout'' else
      if code = 505 then ''HTTP Version Not Supported'' else
      if code = 506 then ''Variant Also Negotiates'' else
      if code = 507 then ''Insufficient Storage'' else
      if code = 508 then ''Loop Detected'' else
      if code = 510 then ''Not Extended'' else
      if code = 511 then ''Network Authentication Required'' else
      [])"


subsection \<open>The registry\<close>

text \<open>
  A stored \<^verbatim>\<open>problemHandlerFunc\<close> is the closure built by \<^verbatim>\<open>HtmlDoc\<close>; it is given by
  the two variables it captures. The router (\<^verbatim>\<open>chi.Mux\<close>) is a table of exact routes:
  method and pattern map to the handler, and each handler installed by the package is the
  closure that serves the captured \<^verbatim>\<open>html\<close>. Installing a route at a pattern that has one
  replaces it. The map and the router are nil in a zero-value registry: \<open>None\<close>.
\<close>

record problemHandlerFunc =
  h_title :: string
  h_docURL :: string

type_synonym Mux = "(string \<times> string) \<rightharpoonup> bytes"

definition NewMux :: Mux where
  "NewMux = Map.empty"

definition Mux_Get :: "Mux \<Rightarrow> string \<Rightarrow> bytes \<Rightarrow> Mux" where
  "Mux_Get m pattern html = m((''GET'', pattern) \<mapsto> html)"

record RFC7807 =
  URL :: string
  mux :: "Mux option"
  problemHandlers :: "(string \<rightharpoonup> problemHandlerFunc) option"

definition New :: "string \<Rightarrow> RFC7807" where
  "New url = \<lparr>URL = url, mux = Some NewMux, problemHandlers = Some Map.empty\<rparr>"

subsection \<open>Writing a problem\<close>

text \<open>
  The loop \<^verbatim>\<open>for _, extension := range extensions\<close> over the problem map. Reading the
  key of a nil extension is a panic.
\<close>

fun merge_extensions :: "problem \<Rightarrow> Extension option list \<Rightarrow> failure + problem" where
  "merge_extensions problem [] = Inr problem"
| "merge_extensions problem (None # extensions) = Inl NilPointerDereference"
| "merge_extensions problem (Some extension # extensions) =
     merge_extensions (problem(Key extension \<mapsto> Value extension)) extensions"

text \<open>
  The body of the closure stored by \<^verbatim>\<open>HtmlDoc\<close>. \<^verbatim>\<open>Encode\<close> writes the encoding with
  one \<^verbatim>\<open>Write\<close>. A panic leaves the writer as it was: the loop comes before any
  write, and \<^verbatim>\<open>WriteHeader\<close> checks the code before it changes anything.
\<close>

definition problemHandler_call ::
  "library \<Rightarrow> problemHandlerFunc \<Rightarrow> ResponseWriter \<Rightarrow> int \<Rightarrow> string \<Rightarrow> Extension option list
     \<Rightarrow> failure + ResponseWriter" where
  "problemHandler_call lib h w status detail extensions =
     (case merge_extensions Map.empty extensions of
        Inl panic \<Rightarrow> Inl panic
      | Inr problem \<Rightarrow>
          (let problem = problem(''type'' \<mapsto> JString (h_docURL h));
               problem = problem(''title'' \<mapsto> JString (h_title h));
               problem = problem(''status'' \<mapsto> JNumber status);
               problem = problem(''detail'' \<mapsto> JString detail)
           in case WriteHeader status w of
                Inl panic \<Rightarrow> Inl panic
              | Inr w \<Rightarrow>
                  (let w = Header_Set ''Content-Type'' ''application/problem+json; charset=utf-8'' w
                   in Inr (Write (json_Encode lib [] ''  '' problem) w))))"

text \<open>
  The map read \<^verbatim>\<open>rfc7807.problemHandlers[title]\<close>: reading a nil map gives nil, as a
  missing key does.
\<close>

definition lookup_handler :: "RFC7807 \<Rightarrow> string \<Rightarrow> problemHandlerFunc option" where
  "lookup_handler rfc7807 title =
     (case problemHandlers rfc7807 of None \<Rightarrow> None | Some hs \<Rightarrow> hs title)"

definition Error ::
  "library \<Rightarrow> RFC7807 \<Rightarrow> ResponseWriter \<Rightarrow> string \<Rightarrow> int \<Rightarrow> string \<Rightarrow> Extension option list
     \<Rightarrow> (failure + ResponseWriter) \<times> RFC7807" where
  "Error lib rfc7807 w title status detail extensions =
     (case lookup_handler rfc7807 title of
        Some handler \<Rightarrow> (problemHandler_call lib handler w status detail extensions, rfc7807)
      | None \<Rightarrow>
          (case merge_extensions Map.empty extensions of
             Inl panic \<Rightarrow> (Inl panic, rfc7807)
           | Inr problem \<Rightarrow>
               (let title = (if title = [] then StatusText status else title);
                    problem = problem(''title'' \<mapsto> JString title);
                    problem = problem(''status'' \<mapsto> JNumber status);
                    problem = problem(''detail'' \<mapsto> JString detail)
                in case WriteHeader status w of
                     Inl panic \<Rightarrow> (Inl panic, rfc7807)
                   | Inr w \<Rightarrow>
                       (let w = Header_Set ''Content-Type'' ''application/problem+json; charset=utf-8'' w
                        in (Inr (Write (json_Encode lib [] ''  '' problem) w), rfc7807)))))"

subsection \<open>Registration\<close>

text \<open>
  \<^verbatim>\<open>HtmlDoc\<close>. The error of \<^verbatim>\<open>url.Parse\<close> is discarded and the URL it returns, nil on
  error, is dereferenced by the assignment to \<^verbatim>\<open>url.Path\<close>: a panic, after the route has
  been installed and before the closure is stored.
\<close>

definition store_handler :: "RFC7807 \<Rightarrow> string \<Rightarrow> string \<Rightarrow> (failure + problemHandlerFunc) \<times> RFC7807" where
  "store_handler rfc7807 title docURL =
     (let hs = (case problemHandlers rfc7807 of None \<Rightarrow> Map.empty | Some hs \<Rightarrow> hs);
          handler = \<lparr>h_title = title, h_docURL = docURL\<rparr>
      in (Inr handler, rfc7807\<lparr>problemHandlers := Some (hs(title \<mapsto> handler))\<rparr>))"

definition HtmlDoc ::
  "library \<Rightarrow> RFC7807 \<Rightarrow> string \<Rightarrow> bytes \<Rightarrow> (failure + problemHandlerFunc) \<times> RFC7807" where
  "HtmlDoc lib rfc7807 title html =
     (let m = (case mux rfc7807 of None \<Rightarrow> NewMux | Some m \<Rightarrow> m);
          rfc7807 = rfc7807\<lparr>mux := Some m\<rparr>
      in if html \<noteq> [] then
           (let p = ''/'' @ PathEscape title @ ''.html'';
                rfc7807 = rfc7807\<lparr>mux := Some (Mux_Get m p html)\<rparr>
            in case url_Parse lib (URL rfc7807) of
                 Inl err \<Rightarrow> (Inl NilPointerDereference, rfc7807)
               | Inr url \<Rightarrow>
                   (let url = url\<lparr>Path := path_Join [Path url, p]\<rparr>
                    in store_handler rfc7807 title (URL_String url)))
         else store_handler rfc7807 title [])"

definition template_data :: "string \<Rightarrow> string \<Rightarrow> (string \<rightharpoonup> string)" where
  "template_data title description = [''Title'' \<mapsto> title, ''Description'' \<mapsto> description]"

definition TemplateDoc ::
  "library \<Rightarrow> RFC7807 \<Rightarrow> string \<Rightarrow> string \<Rightarrow> string \<Rightarrow> (failure + problemHandlerFunc) \<times> RFC7807" where
  "TemplateDoc lib rfc7807 title description templateStr =
     (case template_Parse lib templateStr of
        Inl tError \<Rightarrow> (Inl (TemplateParseError tError), rfc7807)
      | Inr template \<Rightarrow>
          (case template_Execute lib template (template_data title description) of
             Inl err \<Rightarrow> (Inl (TemplateExecError err), rfc7807)
           | Inr buf \<Rightarrow> HtmlDoc lib rfc7807 title buf))"

definition DefaultTemplate :: string where
  "DefaultTemplate =
     ''<html>\<newline>  <head>\<newline>    <meta charset='' @ [CHR 0x22] @ ''utf-8'' @ [CHR 0x22] @ ''>\<newline>'' @
     ''    <title>Error {{.Title}}</title>\<newline>  </head>\<newline>  <body>\<newline>'' @
     ''    <h1>{{.Title}}</h1>\<newline>    <pre>{{.Description}}</pre>\<newline>  </body>\<newline></html>''"

definition Doc ::
  "library \<Rightarrow> RFC7807 \<Rightarrow> string \<Rightarrow> string \<Rightarrow> (failure + problemHandlerFunc) \<times> RFC7807" where
  "Doc lib rfc7807 title description = TemplateDoc lib rfc7807 title description DefaultTemplate"

text \<open>
  \<^verbatim>\<open>MarkdownDoc\<close>. The shell is written in raw string literals, so each \<^verbatim>\<open>\n\<close> in it is
  a backslash and the letter n, not a line break.
\<close>

definition bsn :: string where
  "bsn = [CHR 0x5C, CHR ''n'']"

definition MarkdownDoc ::
  "library \<Rightarrow> RFC7807 \<Rightarrow> string \<Rightarrow> bytes \<Rightarrow> (failure + problemHandlerFunc) \<times> RFC7807" where
  "MarkdownDoc lib rfc7807 title markdown =
     (let buf = ''<html>'' @ bsn @ ''<head>'' @ bsn @ ''  <meta charset='' @ [CHR 0x22] @ ''utf-8''
                  @ [CHR 0x22] @ ''>'' @ bsn @ ''  <title>Error '';
          buf = buf @ title;
          buf = buf @ ''</title>'' @ bsn @ ''</head>'' @ bsn @ ''<body>'';
          buf = buf @ MarkdownCommon lib markdown;
          buf = buf @ ''</body>'' @ bsn @ ''</html>''
      in HtmlDoc lib rfc7807 title buf)"

subsection \<open>Serving the documentation pages\<close>

text \<open>
  A request is its method and the path the router matches. The handler of a documentation
  route calls \<^verbatim>\<open>WriteHeader\<close>, then sets the content type, then writes the page. A path
  with no route gets the router's 404, a path whose route has another method its 405.
\<close>

record Request =
  Method :: string
  RequestPath :: string

definition doc_handler :: "bytes \<Rightarrow> ResponseWriter \<Rightarrow> failure + ResponseWriter" where
  "doc_handler html aWriter =
     (case WriteHeader 200 aWriter of
        Inl panic \<Rightarrow> Inl panic
      | Inr aWriter \<Rightarrow>
          (let aWriter = Header_Set ''Content-Type'' ''text/html; charset=utf-8'' aWriter
           in Inr (Write html aWriter)))"

definition Mux_ServeHTTP :: "Mux \<Rightarrow> ResponseWriter \<Rightarrow> Request \<Rightarrow> failure + ResponseWriter" where
  "Mux_ServeHTTP m aWriter aRequest =
     (case m (Method aRequest, RequestPath aRequest) of
        Some html \<Rightarrow> doc_handler html aWriter
      | None \<Rightarrow>
          (case m (''GET'', RequestPath aRequest) of
             Some html \<Rightarrow>
               (case WriteHeader 405 aWriter of
                  Inl panic \<Rightarrow> Inl panic
                | Inr aWriter \<Rightarrow> Inr (Write [] aWriter))
           | None \<Rightarrow>
               (let aWriter = Header_Set ''Content-Type'' ''text/plain; charset=utf-8'' aWriter;
                    aWriter = Header_Set ''X-Content-Type-Options'' ''nosniff'' aWriter
                in case WriteHeader 404 aWriter of
                     Inl panic \<Rightarrow> Inl panic
                   | Inr aWriter \<Rightarrow> Inr (Write ''404 page not found\<newline>'' aWriter))))"

definition ServeHTTP ::
  "RFC7807 \<Rightarrow> ResponseWriter \<Rightarrow> Request \<Rightarrow> (failure + ResponseWriter) \<times> RFC7807" where
  "ServeHTTP rfc7807 aWriter aRequest =
     (case mux rfc7807 of
        None \<Rightarrow> (Inl NilPointerDereference, rfc7807)
      | Some m \<Rightarrow> (Mux_ServeHTTP m aWriter aRequest, rfc7807))"

subsection \<open>What a dispatch writes\<close>

text \<open>
  The two halves of a dispatch, named so that the theorems can speak of them: the map
  that has been built when the writing starts, for a list of extensions none of which is
  nil (on the closure's path and on the fallback path of \<^verbatim>\<open>Error\<close>), and the three
  writing steps both paths end with.
\<close>

fun merged :: "problem \<Rightarrow> Extension list \<Rightarrow> problem" where
  "merged problem [] = problem"
| "merged problem (extension # extensions) =
     merged (problem(Key extension \<mapsto> Value extension)) extensions"

definition closure_problem :: "problemHandlerFunc \<Rightarrow> int \<Rightarrow> string \<Rightarrow> Extension list \<Rightarrow> problem" where
  "closure_problem h status detail extensions =
     (merged Map.empty extensions)
       (''type'' \<mapsto> JString (h_docURL h), ''title'' \<mapsto> JString (h_title h),
        ''status'' \<mapsto> JNumber status, ''detail'' \<mapsto> JString detail)"

definition fallback_problem :: "string \<Rightarrow> int \<Rightarrow> string \<Rightarrow> Extension list \<Rightarrow> problem" where
  "fallback_problem title status detail extensions =
     (merged Map.empty extensions)
       (''title'' \<mapsto> JString (if title = [] then StatusText status else title),
        ''status'' \<mapsto> JNumber status, ''detail'' \<mapsto> JString detail)"

definition write_problem :: "library \<Rightarrow> ResponseWriter \<Rightarrow> int \<Rightarrow> problem \<Rightarrow> failure + ResponseWriter" where
  "write_problem lib w status problem =
     (case WriteHeader status w of
        Inl panic \<Rightarrow> Inl panic
      | Inr w \<Rightarrow>
          Inr (Write (json_Encode lib [] ''  '' problem)
                 (Header_Set ''Content-Type'' ''application/problem+json; charset=utf-8'' w)))"


text \<open>
  In the words of the specification: the value of the last extension with a given key,
  in argument order.
\<close>

definition last_value :: "string \<Rightarrow> Extension list \<Rightarrow> jvalue option" where
  "last_value k extensions =
     (case filter (\<lambda>e. Key e = k) extensions of
        [] \<Rightarrow> None
      | e # es \<Rightarrow> Some (Value (last (e # es))))"


text \<open>
  A writer on which the handler has done nothing that limits the response: no final
  header written, not a HEAD request, no \<^verbatim>\<open>Content-Length\<close> set.
\<close>

definition fresh :: "ResponseWriter \<Rightarrow> bool" where
  "fresh w =
     (if rw_wroteHeader w then False
      else if rw_head w then False
      else rw_contentLength w = - 1 \<and> rw_header w ''Content-Length'' = None)"


subsection \<open>An instance of the library\<close>

text \<open>
  A small instance of the library record, on which the model runs. Its URL parser rejects
  a string with an ASCII control byte, as \<^verbatim>\<open>url.Parse\<close> does, and splits
  \<^verbatim>\<open>scheme://host/path\<close>; it is meant for base URLs of this shape made of letters,
  digits, dots, hyphens and slashes. Its template engine knows actions that are a chain of
  fields, as \<^verbatim>\<open>{{.Title}}\<close>: an action that is not closed and any other action are parse
  errors; a field the data lacks is printed as the empty string, a field of a field is an
  execution error (the data are strings), and a value is printed with the HTML escapes of
  \<^verbatim>\<open>html/template\<close>. Its Markdown renderer makes one paragraph, its JSON encoder prints
  the string members \<^verbatim>\<open>detail\<close>, \<^verbatim>\<open>title\<close> and \<^verbatim>\<open>type\<close> of a problem, in this order.
  No theorem below depends on what the encoder of the instance prints.
\<close>

definition isCTL :: "char \<Rightarrow> bool" where
  "isCTL c = ((of_char c :: nat) < 32 \<or> (of_char c :: nat) = 127)"

fun cut_scheme :: "string \<Rightarrow> string \<Rightarrow> (string \<times> string) option" where
  "cut_scheme acc (a # b # c # cs) =
     (if a = CHR '':'' \<and> b = CHR ''/'' \<and> c = CHR ''/'' then Some (rev acc, cs)
      else cut_scheme (a # acc) (b # c # cs))"
| "cut_scheme acc cs = None"

definition plain_URL :: "string \<Rightarrow> string \<Rightarrow> string \<Rightarrow> net_URL" where
  "plain_URL scheme host path =
     \<lparr>Scheme = scheme, Opaque = [], User = None, Host = host, Path = path, RawPath = [],
      OmitHost = False, ForceQuery = False, RawQuery = [], Fragment = [], RawFragment = []\<rparr>"

definition sample_url_Parse :: "string \<Rightarrow> string + net_URL" where
  "sample_url_Parse rawURL =
     (if list_ex isCTL rawURL then Inl ''net/url: invalid control character in URL''
      else (case cut_scheme [] rawURL of
              None \<Rightarrow> Inr (plain_URL [] [] rawURL)
            | Some (scheme, rest) \<Rightarrow>
                Inr (plain_URL scheme (takeWhile (\<lambda>c. c \<noteq> CHR ''/'') rest)
                       (dropWhile (\<lambda>c. c \<noteq> CHR ''/'') rest))))"

datatype piece = Chr char | Act string

fun pieces :: "string option \<Rightarrow> string \<Rightarrow> string + piece list" where
  "pieces None (a # b # cs) =
     (if a = CHR ''{'' \<and> b = CHR ''{'' then pieces (Some []) cs
      else map_sum id ((#) (Chr a)) (pieces None (b # cs)))"
| "pieces None cs = Inr (map Chr cs)"
| "pieces (Some act) (a # b # cs) =
     (if a = CHR ''}'' \<and> b = CHR ''}'' then map_sum id ((#) (Act act)) (pieces None cs)
      else pieces (Some (act @ [a])) (b # cs))"
| "pieces (Some act) cs = Inl ''unclosed action''"

fun split_dot :: "string \<Rightarrow> string list" where
  "split_dot [] = [[]]"
| "split_dot (c # cs) =
     (if c = CHR ''.'' then [] # split_dot cs
      else (case split_dot cs of [] \<Rightarrow> [[c]] | x # xs \<Rightarrow> (c # x) # xs))"

definition field_chain :: "string \<Rightarrow> string list option" where
  "field_chain act =
     (case act of
        [] \<Rightarrow> None
      | c # name \<Rightarrow>
          (if c = CHR ''.'' \<and> list_all (\<lambda>f. f \<noteq> []) (split_dot name) then Some (split_dot name)
           else None))"

definition supported :: "piece \<Rightarrow> bool" where
  "supported p = (case p of Chr c \<Rightarrow> True | Act act \<Rightarrow> field_chain act \<noteq> None)"

definition sample_template_Parse :: "string \<Rightarrow> string + string" where
  "sample_template_Parse text =
     (case pieces None text of
        Inl e \<Rightarrow> Inl e
      | Inr ps \<Rightarrow> if list_all supported ps then Inr text else Inl ''unsupported action'')"

definition html_escape_byte :: "char \<Rightarrow> string" where
  "html_escape_byte c =
     (if c = CHR 0x00 then [CHR 0xEF, CHR 0xBF, CHR 0xBD]
      else if c = CHR 0x22 then ''&#34;''
      else if c = CHR ''&'' then ''&amp;''
      else if c = CHR 0x27 then ''&#39;''
      else if c = CHR ''+'' then ''&#43;''
      else if c = CHR ''<'' then ''&lt;''
      else if c = CHR ''>'' then ''&gt;''
      else [c])"

definition exec_piece :: "(string \<rightharpoonup> string) \<Rightarrow> piece \<Rightarrow> string + string" where
  "exec_piece dat p =
     (case p of
        Chr c \<Rightarrow> Inr [c]
      | Act act \<Rightarrow>
          (case field_chain act of
             Some [f] \<Rightarrow> Inr (concat (map html_escape_byte (case dat f of None \<Rightarrow> [] | Some v \<Rightarrow> v)))
           | Some (f # g # fs) \<Rightarrow> Inl (''cannot evaluate field '' @ g @ '' in type string'')
           | _ \<Rightarrow> Inl ''unsupported action''))"

fun exec_pieces :: "(string \<rightharpoonup> string) \<Rightarrow> piece list \<Rightarrow> string + string" where
  "exec_pieces dat [] = Inr []"
| "exec_pieces dat (p # ps) =
     (case exec_piece dat p of
        Inl e \<Rightarrow> Inl e
      | Inr s \<Rightarrow> map_sum id ((@) s) (exec_pieces dat ps))"

definition sample_template_Execute :: "string \<Rightarrow> (string \<rightharpoonup> string) \<Rightarrow> string + bytes" where
  "sample_template_Execute t dat =
     (case pieces None t of Inl e \<Rightarrow> Inl e | Inr ps \<Rightarrow> exec_pieces dat ps)"

definition sample_member :: "string \<Rightarrow> problem \<Rightarrow> string \<Rightarrow> string list" where
  "sample_member indent problem k =
     (case problem k of
        Some (JString v) \<Rightarrow> [indent @ [CHR 0x22] @ k @ [CHR 0x22] @ '': '' @ [CHR 0x22] @ v @ [CHR 0x22]]
      | _ \<Rightarrow> [])"

fun join_lines :: "string \<Rightarrow> string list \<Rightarrow> string" where
  "join_lines prefix [] = []"
| "join_lines prefix [l] = ''\<newline>'' @ prefix @ l"
| "join_lines prefix (l # ls) = ''\<newline>'' @ prefix @ l @ '','' @ join_lines prefix ls"

definition sample_json_Encode :: "string \<Rightarrow> string \<Rightarrow> problem \<Rightarrow> bytes" where
  "sample_json_Encode prefix indent problem =
     ''{'' @ join_lines prefix (concat (map (sample_member indent problem) [''detail'', ''title'', ''type'']))
       @ ''\<newline>'' @ prefix @ ''}\<newline>''"

definition sample :: library where
  "sample =
     \<lparr>url_Parse = sample_url_Parse,
      template_Parse = sample_template_Parse, template_Execute = sample_template_Execute,
      MarkdownCommon = (\<lambda>markdown. ''<p>'' @ markdown @ ''</p>\<newline>''),
      json_Encode = sample_json_Encode\<rparr>"

section \<open>Properties\<close>

subsection \<open>Auxiliary facts\<close>

lemma merge_extensions_Some:
  "merge_extensions problem (map Some extensions) = Inr (merged problem extensions)"
  by (induction extensions arbitrary: problem) simp_all

lemma merge_extensions_nil:
  "None \<in> set extensions \<Longrightarrow> merge_extensions problem extensions = Inl NilPointerDereference"
proof (induction extensions arbitrary: problem)
  case Nil
  then show ?case by simp
next
  case (Cons e es)
  then show ?case by (cases e) auto
qed

lemma merged_last:
  "merged problem extensions k =
     (case last_value k extensions of None \<Rightarrow> problem k | Some v \<Rightarrow> Some v)"
proof (induction extensions arbitrary: problem)
  case Nil
  show ?case by (simp add: last_value_def)
next
  case (Cons e es)
  show ?case
  proof (cases "filter (\<lambda>x. Key x = k) es")
    case Nil
    then show ?thesis
      by (auto simp: Cons.IH last_value_def)
  next
    case (Cons x xs)
    then show ?thesis
      by (auto simp: Cons.IH last_value_def)
  qed
qed

lemma problemHandler_call_eq:
  "problemHandler_call lib h w status detail (map Some extensions) =
     write_problem lib w status (closure_problem h status detail extensions)"
  by (simp add: problemHandler_call_def merge_extensions_Some write_problem_def closure_problem_def
      Let_def split: sum.splits)

lemma Error_registered:
  "lookup_handler rfc7807 title = Some h \<Longrightarrow>
     Error lib rfc7807 w title status detail extensions =
       (problemHandler_call lib h w status detail extensions, rfc7807)"
  by (simp add: Error_def)

lemma Error_fallback:
  "lookup_handler rfc7807 title = None \<Longrightarrow>
     Error lib rfc7807 w title status detail (map Some extensions) =
       (write_problem lib w status (fallback_problem title status detail extensions), rfc7807)"
  by (simp add: Error_def merge_extensions_Some write_problem_def fallback_problem_def Let_def
      split: sum.splits)

lemma finalHeader_fields:
  "rw_wroteHeader (finalHeader code w)"
  "rw_status (finalHeader code w) = code"
  "rw_sent (finalHeader code w) = rw_header w"
  "rw_head (finalHeader code w) = rw_head w"
  "rw_body (finalHeader code w) = rw_body w"
  "rw_interim (finalHeader code w) = rw_interim w"
  "k \<noteq> ''Content-Length'' \<Longrightarrow> rw_header (finalHeader code w) k = rw_header w k"
  by (simp_all add: finalHeader_def Let_def split: option.splits)

lemma finalHeader_plain:
  "rw_header w ''Content-Length'' = None \<Longrightarrow>
     finalHeader code w = w\<lparr>rw_wroteHeader := True, rw_status := code, rw_sent := rw_header w\<rparr>"
  by (simp add: finalHeader_def Let_def)

lemma Write_fields:
  "rw_sent (Write data w) = (if rw_wroteHeader w then rw_sent w else rw_header w)"
  "rw_wroteHeader (Write data w)"
  "rw_status (Write data w) = (if rw_wroteHeader w then rw_status w else 200)"
  "k \<noteq> ''Content-Length'' \<Longrightarrow> rw_header (Write data w) k = rw_header w k"
  by (simp_all add: Write_def Let_def finalHeader_fields)

lemma WriteHeader_cases:
  "rw_wroteHeader w \<Longrightarrow> WriteHeader code w = Inr w"
  "\<not> rw_wroteHeader w \<Longrightarrow> code < 100 \<or> 999 < code \<Longrightarrow> WriteHeader code w = Inl (InvalidWriteHeaderCode code)"
  "\<not> rw_wroteHeader w \<Longrightarrow> 100 \<le> code \<Longrightarrow> code \<le> 199 \<Longrightarrow> code \<noteq> 101 \<Longrightarrow>
     WriteHeader code w = Inr (w\<lparr>rw_interim := rw_interim w @ [(code, rw_header w)]\<rparr>)"
  "\<not> rw_wroteHeader w \<Longrightarrow> code = 101 \<or> (200 \<le> code \<and> code \<le> 999) \<Longrightarrow>
     WriteHeader code w = Inr (finalHeader code w)"
  by (auto simp: WriteHeader_def)

lemma write_problem_sent:
  assumes "write_problem lib w status problem = Inr w'"
  shows "rw_sent w' =
           (if rw_wroteHeader w then rw_sent w
            else if 100 \<le> status \<and> status \<le> 199 \<and> status \<noteq> 101
              then (rw_header w)(''Content-Type'' \<mapsto> ''application/problem+json; charset=utf-8'')
            else rw_header w) \<and>
         rw_header w' ''Content-Type'' = Some ''application/problem+json; charset=utf-8''"
proof -
  consider (written) "rw_wroteHeader w"
    | (bad) "\<not> rw_wroteHeader w" "status < 100 \<or> 999 < status"
    | (interim) "\<not> rw_wroteHeader w" "100 \<le> status" "status \<le> 199" "status \<noteq> 101"
    | (final) "\<not> rw_wroteHeader w" "status = 101 \<or> (200 \<le> status \<and> status \<le> 999)"
    by linarith
  then show ?thesis
  proof cases
    case written
    with assms show ?thesis
      by (auto simp: write_problem_def WriteHeader_cases Write_fields Header_Set_def)
  next
    case bad
    with assms show ?thesis
      by (simp add: write_problem_def WriteHeader_cases)
  next
    case interim
    with assms show ?thesis
      by (auto simp: write_problem_def WriteHeader_cases Write_fields Header_Set_def)
  next
    case final
    with assms have "w' = Write (json_Encode lib [] ''  '' problem)
        (Header_Set ''Content-Type'' ''application/problem+json; charset=utf-8'' (finalHeader status w))"
      by (simp add: write_problem_def WriteHeader_cases)
    with final show ?thesis
      by (auto simp: Write_fields Header_Set_def finalHeader_fields)
  qed
qed

lemma write_problem_fresh:
  assumes "fresh w" and "200 \<le> status" and "status \<le> 999" and "status \<noteq> 204" and "status \<noteq> 304"
  shows "write_problem lib w status problem =
           Inr (w\<lparr>rw_header := (rw_header w)(''Content-Type'' \<mapsto> ''application/problem+json; charset=utf-8''),
                  rw_wroteHeader := True, rw_status := status, rw_sent := rw_header w,
                  rw_written := rw_written w + int (length (json_Encode lib [] ''  '' problem)),
                  rw_body := rw_body w @ json_Encode lib [] ''  '' problem\<rparr>)"
proof -
  from assms(1) have f: "\<not> rw_wroteHeader w" "\<not> rw_head w" "rw_contentLength w = - 1"
      "rw_header w ''Content-Length'' = None"
    by (simp_all add: fresh_def split: if_splits)
  from assms have b: "bodyAllowedForStatus status"
    by (simp add: bodyAllowedForStatus_def)
  from f assms have h: "WriteHeader status w =
      Inr (w\<lparr>rw_wroteHeader := True, rw_status := status, rw_sent := rw_header w\<rparr>)"
    by (simp add: WriteHeader_cases finalHeader_plain)
  show ?thesis
    using f b by (simp add: write_problem_def h Write_def Header_Set_def Let_def)
qed

lemma fresh_New: "fresh NewResponseWriter"
  by (simp add: fresh_def NewResponseWriter_def)

lemma NewResponseWriter_fields:
  "rw_header NewResponseWriter = Map.empty"
  "rw_sent NewResponseWriter = Map.empty"
  "rw_body NewResponseWriter = []"
  "rw_written NewResponseWriter = 0"
  "rw_status NewResponseWriter = 0"
  "\<not> rw_wroteHeader NewResponseWriter"
  by (simp_all add: NewResponseWriter_def)

lemma write_problem_New:
  assumes "200 \<le> status" and "status \<le> 999" and "status \<noteq> 204" and "status \<noteq> 304"
  shows "write_problem lib NewResponseWriter status problem =
           Inr (NewResponseWriter
                  \<lparr>rw_header := [''Content-Type'' \<mapsto> ''application/problem+json; charset=utf-8''],
                   rw_wroteHeader := True, rw_status := status,
                   rw_written := int (length (json_Encode lib [] ''  '' problem)),
                   rw_body := json_Encode lib [] ''  '' problem\<rparr>)"
  using write_problem_fresh [OF fresh_New assms, of lib problem]
  by (simp add: NewResponseWriter_def)



lemma TemplateDoc_rendered:
  "template_Parse lib templateStr = Inr t \<Longrightarrow>
   template_Execute lib t (template_data title description) = Inr buf \<Longrightarrow>
     TemplateDoc lib rfc7807 title description templateStr = HtmlDoc lib rfc7807 title buf"
  by (simp add: TemplateDoc_def)

lemma MarkdownDoc_page:
  "MarkdownDoc lib rfc7807 title markdown =
     HtmlDoc lib rfc7807 title
       (''<html>'' @ bsn @ ''<head>'' @ bsn @ ''  <meta charset='' @ [CHR 0x22] @ ''utf-8'' @ [CHR 0x22]
          @ ''>'' @ bsn @ ''  <title>Error '' @ title @ ''</title>'' @ bsn @ ''</head>'' @ bsn @ ''<body>''
          @ MarkdownCommon lib markdown @ ''</body>'' @ bsn @ ''</html>'')"
  by (simp add: MarkdownDoc_def Let_def)

lemma closure_problem_reserved:
  "closure_problem h status detail extensions ''type'' = Some (JString (h_docURL h))"
  "closure_problem h status detail extensions ''title'' = Some (JString (h_title h))"
  "closure_problem h status detail extensions ''status'' = Some (JNumber status)"
  "closure_problem h status detail extensions ''detail'' = Some (JString detail)"
  by (simp_all add: closure_problem_def)

lemma fallback_problem_reserved:
  "fallback_problem title status detail extensions ''title'' =
     Some (JString (if title = [] then StatusText status else title))"
  "fallback_problem title status detail extensions ''status'' = Some (JNumber status)"
  "fallback_problem title status detail extensions ''detail'' = Some (JString detail)"
  by (simp_all add: fallback_problem_def)

lemma closure_problem_other:
  "k \<notin> {''type'', ''title'', ''status'', ''detail''} \<Longrightarrow>
     closure_problem h status detail extensions k = last_value k extensions"
  by (auto simp: closure_problem_def merged_last split: option.splits)

lemma fallback_problem_other:
  "k \<notin> {''title'', ''status'', ''detail''} \<Longrightarrow>
     fallback_problem title status detail extensions k = last_value k extensions"
  by (auto simp: fallback_problem_def merged_last split: option.splits)

lemma lookup_handler_New: "lookup_handler (New url) title = None"
  by (simp add: lookup_handler_def New_def)

lemma last_value_None: "list_all (\<lambda>e. Key e \<noteq> k) extensions \<Longrightarrow> last_value k extensions = None"
  by (induction extensions) (auto simp: last_value_def)

subsection \<open>Facts about escaping and joining\<close>




















subsection \<open>Dispatch leaves the registry alone\<close>

text \<open>
  C9. For every call to \<^verbatim>\<open>Error\<close>, on the registered path and on the fallback path, the
  registry after the call is the registry before it: base URL, route table and handlers
  map are unchanged. The call reads the handlers map and writes to the response writer it
  was given.
\<close>

theorem Error_frame:
  "snd (Error lib rfc7807 w title status detail extensions) = rfc7807"
  by (simp add: Error_def Let_def split: option.splits sum.splits)

subsection \<open>Registering a title again\<close>



subsection \<open>A base URL that does not parse\<close>

text \<open>
  C10. \<^verbatim>\<open>New\<close> takes any string as the base URL. When the URL parser rejects the base
  URL, a registration with non-empty content ends in a panic: \<^verbatim>\<open>HtmlDoc\<close> drops the
  parser's error and assigns to the path of the nil URL. No closure is stored.
\<close>

theorem HtmlDoc_unparsable_base_panics:
  assumes "url_Parse lib url = Inl err" and "html \<noteq> []"
  shows "URL (New url) = url \<and>
         fst (HtmlDoc lib (New url) title html) = Inl NilPointerDereference \<and>
         lookup_handler (snd (HtmlDoc lib (New url) title html)) title = None"
  using assms by (simp add: HtmlDoc_def New_def Let_def lookup_handler_def)

text \<open>A base URL with a line feed in it.\<close>

theorem HtmlDoc_unparsable_base_panics_witness:
  "url_Parse sample (''http://a'' @ [CHR 0x0A] @ ''b'') =
     Inl ''net/url: invalid control character in URL'' \<and>
   URL (New (''http://a'' @ [CHR 0x0A] @ ''b'')) = ''http://a'' @ [CHR 0x0A] @ ''b'' \<and>
   fst (HtmlDoc sample (New (''http://a'' @ [CHR 0x0A] @ ''b'')) ''NotFound'' ''<html>a</html>'') =
     Inl NilPointerDereference"
proof -
  have p: "url_Parse sample (''http://a'' @ [CHR 0x0A] @ ''b'') =
             Inl ''net/url: invalid control character in URL''"
    by code_simp
  have n: "''<html>a</html>'' \<noteq> []"
    by simp
  from HtmlDoc_unparsable_base_panics [OF p n, of "''NotFound''"] p show ?thesis
    by simp
qed

subsection \<open>A template that fails\<close>

text \<open>
  C6. When the template source does not parse, or parses and does not execute,
  \<^verbatim>\<open>TemplateDoc\<close> returns the error and the registry is the one it was given: no closure
  has been stored and no route installed. \<^verbatim>\<open>Doc\<close> is \<^verbatim>\<open>TemplateDoc\<close> on the default
  template.
\<close>

theorem TemplateDoc_error_atomic:
  assumes "template_Parse lib templateStr = Inl e \<or>
           (template_Parse lib templateStr = Inr t \<and>
            template_Execute lib t (template_data title description) = Inl e)"
  shows "fst (TemplateDoc lib r title description templateStr) =
           Inl (if isl (template_Parse lib templateStr) then TemplateParseError e else TemplateExecError e) \<and>
         snd (TemplateDoc lib r title description templateStr) = r \<and>
         Doc lib r title description = TemplateDoc lib r title description DefaultTemplate"
  using assms by (auto simp: TemplateDoc_def Doc_def)

text \<open>An action that is not closed, and a field of a string.\<close>

theorem TemplateDoc_error_atomic_witness:
  "fst (TemplateDoc sample (New ''https://api.example.com'') ''Oops'' ''bad input'' ''<h1>{{.Title'') =
     Inl (TemplateParseError ''unclosed action'') \<and>
   snd (TemplateDoc sample (New ''https://api.example.com'') ''Oops'' ''bad input'' ''<h1>{{.Title'') =
     New ''https://api.example.com'' \<and>
   fst (TemplateDoc sample (New ''https://api.example.com'') ''Oops'' ''bad input'' ''<h1>{{.Title.X}}</h1>'') =
     Inl (TemplateExecError ''cannot evaluate field X in type string'') \<and>
   snd (TemplateDoc sample (New ''https://api.example.com'') ''Oops'' ''bad input'' ''<h1>{{.Title.X}}</h1>'') =
     New ''https://api.example.com''"
proof -
  have p1: "template_Parse sample ''<h1>{{.Title'' = Inl ''unclosed action''"
    by code_simp
  have p2: "template_Parse sample ''<h1>{{.Title.X}}</h1>'' = Inr ''<h1>{{.Title.X}}</h1>''"
    by code_simp
  have x2: "template_Execute sample ''<h1>{{.Title.X}}</h1>'' (template_data ''Oops'' ''bad input'') =
              Inl ''cannot evaluate field X in type string''"
    by code_simp
  from TemplateDoc_error_atomic [of sample "''<h1>{{.Title''" "''unclosed action''" "[]" "''Oops''"
      "''bad input''" "New ''https://api.example.com''"]
    TemplateDoc_error_atomic [of sample "''<h1>{{.Title.X}}</h1>''"
      "''cannot evaluate field X in type string''"
      "''<h1>{{.Title.X}}</h1>''" "''Oops''" "''bad input''" "New ''https://api.example.com''"]
  show ?thesis
    by (simp add: p1 p2 x2)
qed

subsection \<open>The documentation path and URL\<close>




subsection \<open>Reserved keys and extensions\<close>

text \<open>
  An unregistered title with an extension whose key is \<^verbatim>\<open>type\<close>: \<^verbatim>\<open>Error\<close> takes the
  fallback path, which writes no \<^verbatim>\<open>type\<close> of its own, so the problem it encodes, and
  writes as the body, carries the value of the extension.
\<close>

theorem fallback_keeps_type_extension:
  "Error sample (New ''https://api.example.com'') NewResponseWriter ''Conflict'' 409 ''stale''
       [Ext ''type'' (JString ''bogus'')] =
     (write_problem sample NewResponseWriter 409
        (fallback_problem ''Conflict'' 409 ''stale'' [\<lparr>Key = ''type'', Value = JString ''bogus''\<rparr>]),
      New ''https://api.example.com'') \<and>
   (case write_problem sample NewResponseWriter 409
        (fallback_problem ''Conflict'' 409 ''stale'' [\<lparr>Key = ''type'', Value = JString ''bogus''\<rparr>]) of
      Inl panic \<Rightarrow> False
    | Inr w \<Rightarrow>
        rw_status w = 409 \<and>
        rw_body w = json_Encode sample [] ''  ''
          (fallback_problem ''Conflict'' 409 ''stale'' [\<lparr>Key = ''type'', Value = JString ''bogus''\<rparr>])) \<and>
   fallback_problem ''Conflict'' 409 ''stale'' [\<lparr>Key = ''type'', Value = JString ''bogus''\<rparr>] ''type'' =
     Some (JString ''bogus'')"
proof -
  have f: "Error sample (New ''https://api.example.com'') NewResponseWriter ''Conflict'' 409 ''stale''
             (map Some [\<lparr>Key = ''type'', Value = JString ''bogus''\<rparr>]) =
           (write_problem sample NewResponseWriter 409
              (fallback_problem ''Conflict'' 409 ''stale'' [\<lparr>Key = ''type'', Value = JString ''bogus''\<rparr>]),
            New ''https://api.example.com'')"
    by (rule Error_fallback) (rule lookup_handler_New)
  have t: "fallback_problem ''Conflict'' 409 ''stale'' [\<lparr>Key = ''type'', Value = JString ''bogus''\<rparr>] ''type'' =
             Some (JString ''bogus'')"
    by (simp add: fallback_problem_other last_value_def)
  from f t show ?thesis
    by (simp add: Ext_def write_problem_New)
qed

text \<open>
  C1, amended. The closure stored by a registration merges the extensions first and
  writes \<^verbatim>\<open>type\<close>, \<^verbatim>\<open>title\<close>, \<^verbatim>\<open>status\<close> and \<^verbatim>\<open>detail\<close> afterwards: in the
  problem it encodes these four keys have the system's values, whatever the extensions
  (none of them nil) are, also when \<^verbatim>\<open>Error\<close> calls it. The fallback path of \<^verbatim>\<open>Error\<close>
  does the same for \<^verbatim>\<open>title\<close>, \<^verbatim>\<open>status\<close> and \<^verbatim>\<open>detail\<close>; it writes no \<^verbatim>\<open>type\<close>,
  and the \<^verbatim>\<open>type\<close> of its problem is that of the last extension with this key, if there
  is one.
\<close>

theorem reserved_keys_written_last:
  "problemHandler_call lib h w status detail (map Some extensions) =
     write_problem lib w status (closure_problem h status detail extensions) \<and>
   closure_problem h status detail extensions ''type'' = Some (JString (h_docURL h)) \<and>
   closure_problem h status detail extensions ''title'' = Some (JString (h_title h)) \<and>
   closure_problem h status detail extensions ''status'' = Some (JNumber status) \<and>
   closure_problem h status detail extensions ''detail'' = Some (JString detail) \<and>
   (lookup_handler r title = Some h \<longrightarrow>
      Error lib r w title status detail (map Some extensions) =
        (write_problem lib w status (closure_problem h status detail extensions), r)) \<and>
   (lookup_handler r title = None \<longrightarrow>
      Error lib r w title status detail (map Some extensions) =
        (write_problem lib w status (fallback_problem title status detail extensions), r) \<and>
      fallback_problem title status detail extensions ''title'' =
        Some (JString (if title = [] then StatusText status else title)) \<and>
      fallback_problem title status detail extensions ''status'' = Some (JNumber status) \<and>
      fallback_problem title status detail extensions ''detail'' = Some (JString detail) \<and>
      fallback_problem title status detail extensions ''type'' = last_value ''type'' extensions)"
  by (simp add: problemHandler_call_eq closure_problem_reserved fallback_problem_reserved
      Error_registered Error_fallback fallback_problem_other)

text \<open>
  A registered title with a \<^verbatim>\<open>type\<close> extension, and an unregistered title with a
  \<^verbatim>\<open>title\<close> extension.
\<close>

theorem reserved_keys_written_last_witness:
  "lookup_handler (snd (HtmlDoc sample (New ''https://api.example.com'') ''NotFound'' ''<html>a</html>''))
     ''NotFound'' =
     Some \<lparr>h_title = ''NotFound'', h_docURL = ''https://api.example.com/NotFound.html''\<rparr> \<and>
   fst (Error sample (snd (HtmlDoc sample (New ''https://api.example.com'') ''NotFound'' ''<html>a</html>''))
      NewResponseWriter ''NotFound'' 404 ''no such user'' [Ext ''type'' (JString ''bogus'')]) =
     write_problem sample NewResponseWriter 404
       (closure_problem \<lparr>h_title = ''NotFound'', h_docURL = ''https://api.example.com/NotFound.html''\<rparr>
          404 ''no such user'' [\<lparr>Key = ''type'', Value = JString ''bogus''\<rparr>]) \<and>
   closure_problem \<lparr>h_title = ''NotFound'', h_docURL = ''https://api.example.com/NotFound.html''\<rparr>
       404 ''no such user'' [\<lparr>Key = ''type'', Value = JString ''bogus''\<rparr>] ''type'' =
     Some (JString ''https://api.example.com/NotFound.html'') \<and>
   lookup_handler (New ''https://api.example.com'') ''Conflict'' = None \<and>
   fst (Error sample (New ''https://api.example.com'') NewResponseWriter ''Conflict'' 409 ''stale''
      [Ext ''title'' (JString ''bogus'')]) =
     write_problem sample NewResponseWriter 409
       (fallback_problem ''Conflict'' 409 ''stale'' [\<lparr>Key = ''title'', Value = JString ''bogus''\<rparr>]) \<and>
   fallback_problem ''Conflict'' 409 ''stale'' [\<lparr>Key = ''title'', Value = JString ''bogus''\<rparr>] ''title'' =
     Some (JString ''Conflict'')"
proof -
  let ?h = "\<lparr>h_title = ''NotFound'', h_docURL = ''https://api.example.com/NotFound.html''\<rparr>"
  let ?r = "snd (HtmlDoc sample (New ''https://api.example.com'') ''NotFound'' ''<html>a</html>'')"
  have l1: "lookup_handler ?r ''NotFound'' = Some ?h"
    by code_simp
  have l2: "lookup_handler (New ''https://api.example.com'') ''Conflict'' = None"
    by code_simp
  from reserved_keys_written_last [of sample ?h NewResponseWriter 404 "''no such user''"
      "[\<lparr>Key = ''type'', Value = JString ''bogus''\<rparr>]" ?r "''NotFound''"]
    reserved_keys_written_last [of sample ?h NewResponseWriter 409 "''stale''"
      "[\<lparr>Key = ''title'', Value = JString ''bogus''\<rparr>]" "New ''https://api.example.com''" "''Conflict''"]
  show ?thesis
    by (simp add: l1 l2 Ext_def)
qed

subsection \<open>Duplicate extension keys\<close>

text \<open>
  Two extensions with the key \<^verbatim>\<open>title\<close>: the problem has the system's title, not the
  value of the second extension.
\<close>

theorem reserved_duplicate_not_last_extension:
  "fst (Error sample (New ''https://api.example.com'') NewResponseWriter ''Conflict'' 409 ''stale''
      [Ext ''title'' (JString ''first''), Ext ''title'' (JString ''second'')]) =
     write_problem sample NewResponseWriter 409
       (fallback_problem ''Conflict'' 409 ''stale''
          [\<lparr>Key = ''title'', Value = JString ''first''\<rparr>, \<lparr>Key = ''title'', Value = JString ''second''\<rparr>]) \<and>
   fallback_problem ''Conflict'' 409 ''stale''
       [\<lparr>Key = ''title'', Value = JString ''first''\<rparr>, \<lparr>Key = ''title'', Value = JString ''second''\<rparr>]
       ''title'' =
     Some (JString ''Conflict'') \<and>
   last_value ''title''
       [\<lparr>Key = ''title'', Value = JString ''first''\<rparr>, \<lparr>Key = ''title'', Value = JString ''second''\<rparr>] =
     Some (JString ''second'')"
proof -
  have f: "Error sample (New ''https://api.example.com'') NewResponseWriter ''Conflict'' 409 ''stale''
             (map Some [\<lparr>Key = ''title'', Value = JString ''first''\<rparr>,
                        \<lparr>Key = ''title'', Value = JString ''second''\<rparr>]) =
           (write_problem sample NewResponseWriter 409
              (fallback_problem ''Conflict'' 409 ''stale''
                 [\<lparr>Key = ''title'', Value = JString ''first''\<rparr>,
                  \<lparr>Key = ''title'', Value = JString ''second''\<rparr>]),
            New ''https://api.example.com'')"
    by (rule Error_fallback) (rule lookup_handler_New)
  from f show ?thesis
    by (simp add: Ext_def fallback_problem_reserved last_value_def)
qed

text \<open>
  C8, amended. The loop over the extensions (none of them nil) leaves every key with the
  value of the last extension that has it. In the problem that is encoded this holds for
  every key that is not written afterwards: every key but \<^verbatim>\<open>type\<close>, \<^verbatim>\<open>title\<close>,
  \<^verbatim>\<open>status\<close>, \<^verbatim>\<open>detail\<close> on the closure's path, every key but \<^verbatim>\<open>title\<close>,
  \<^verbatim>\<open>status\<close>, \<^verbatim>\<open>detail\<close> on the fallback path.
\<close>

theorem duplicate_extension_keys:
  "merge_extensions Map.empty (map Some extensions) = Inr (merged Map.empty extensions) \<and>
   merged Map.empty extensions k = last_value k extensions \<and>
   (k \<notin> {''type'', ''title'', ''status'', ''detail''} \<longrightarrow>
      closure_problem h status detail extensions k = last_value k extensions \<and>
      problemHandler_call lib h w status detail (map Some extensions) =
        write_problem lib w status (closure_problem h status detail extensions)) \<and>
   (k \<notin> {''title'', ''status'', ''detail''} \<and> lookup_handler r title = None \<longrightarrow>
      fallback_problem title status detail extensions k = last_value k extensions \<and>
      Error lib r w title status detail (map Some extensions) =
        (write_problem lib w status (fallback_problem title status detail extensions), r))"
proof -
  have "merged Map.empty extensions k = last_value k extensions"
    by (simp add: merged_last split: option.splits)
  then show ?thesis
    using closure_problem_other [of k h status detail extensions]
      fallback_problem_other [of k title status detail extensions]
    by (simp add: merge_extensions_Some problemHandler_call_eq Error_fallback)
qed

text \<open>The key \<^verbatim>\<open>trace\<close> given twice, with another key in between.\<close>

theorem duplicate_extension_keys_witness:
  "last_value ''trace''
       [\<lparr>Key = ''trace'', Value = JString ''t1''\<rparr>, \<lparr>Key = ''node'', Value = JNumber 7\<rparr>,
        \<lparr>Key = ''trace'', Value = JString ''t2''\<rparr>] =
     Some (JString ''t2'') \<and>
   closure_problem \<lparr>h_title = ''NotFound'', h_docURL = []\<rparr> 404 ''no such user''
       [\<lparr>Key = ''trace'', Value = JString ''t1''\<rparr>, \<lparr>Key = ''node'', Value = JNumber 7\<rparr>,
        \<lparr>Key = ''trace'', Value = JString ''t2''\<rparr>] ''trace'' =
     Some (JString ''t2'') \<and>
   fallback_problem ''Conflict'' 409 ''stale''
       [\<lparr>Key = ''trace'', Value = JString ''t1''\<rparr>, \<lparr>Key = ''node'', Value = JNumber 7\<rparr>,
        \<lparr>Key = ''trace'', Value = JString ''t2''\<rparr>] ''trace'' =
     Some (JString ''t2'') \<and>
   fst (Error sample (New ''https://api.example.com'') NewResponseWriter ''Conflict'' 409 ''stale''
      [Ext ''trace'' (JString ''t1''), Ext ''node'' (JNumber 7), Ext ''trace'' (JString ''t2'')]) =
     write_problem sample NewResponseWriter 409
       (fallback_problem ''Conflict'' 409 ''stale''
          [\<lparr>Key = ''trace'', Value = JString ''t1''\<rparr>, \<lparr>Key = ''node'', Value = JNumber 7\<rparr>,
           \<lparr>Key = ''trace'', Value = JString ''t2''\<rparr>])"
proof -
  let ?xs = "[\<lparr>Key = ''trace'', Value = JString ''t1''\<rparr>, \<lparr>Key = ''node'', Value = JNumber 7\<rparr>,
              \<lparr>Key = ''trace'', Value = JString ''t2''\<rparr>]"
  have v: "last_value ''trace'' ?xs = Some (JString ''t2'')"
    by (simp add: last_value_def)
  have k1: "''trace'' \<notin> {''type'', ''title'', ''status'', ''detail''}"
    by simp
  have k2: "''trace'' \<notin> {''title'', ''status'', ''detail''}"
    by simp
  have l: "lookup_handler (New ''https://api.example.com'') ''Conflict'' = None"
    by code_simp
  from duplicate_extension_keys [of ?xs "''trace''" "\<lparr>h_title = ''NotFound'', h_docURL = []\<rparr>" 404
      "''no such user''" sample NewResponseWriter "New ''https://api.example.com''" "''Conflict''"]
    duplicate_extension_keys [of ?xs "''trace''" "\<lparr>h_title = ''NotFound'', h_docURL = []\<rparr>" 409
      "''stale''" sample NewResponseWriter "New ''https://api.example.com''" "''Conflict''"]
  show ?thesis
    using v k1 k2 l by (simp add: Ext_def)
qed

subsection \<open>The fallback path\<close>

text \<open>
  Four calls for the empty title on a registry with no registration. With an extension
  whose key is \<^verbatim>\<open>type\<close> the problem that is written as the body has a \<^verbatim>\<open>type\<close>
  member. With status 204 no body is written. With status 0 the call panics in
  \<^verbatim>\<open>WriteHeader\<close>, with a nil extension it panics in the loop, and nothing is written.
\<close>

theorem fallback_body_has_type_of_extension:
  "lookup_handler (New ''https://api.example.com'') [] = None \<and>
   (case fst (Error sample (New ''https://api.example.com'') NewResponseWriter [] 404 ''no such user''
         [Ext ''type'' (JString ''about:blank'')]) of
      Inl panic \<Rightarrow> False
    | Inr w' \<Rightarrow>
        rw_status w' = 404 \<and>
        rw_body w' = json_Encode sample [] ''  ''
          (fallback_problem [] 404 ''no such user'' [\<lparr>Key = ''type'', Value = JString ''about:blank''\<rparr>])) \<and>
   fallback_problem [] 404 ''no such user'' [\<lparr>Key = ''type'', Value = JString ''about:blank''\<rparr>] ''type'' =
     Some (JString ''about:blank'') \<and>
   (case fst (Error sample (New ''https://api.example.com'') NewResponseWriter [] 204 ''no such user'' []) of
      Inl panic \<Rightarrow> False
    | Inr w' \<Rightarrow> rw_status w' = 204 \<and> rw_body w' = []) \<and>
   (case fst (Error sample (New ''https://api.example.com'') NewResponseWriter [] 0 ''no such user'' []) of
      Inl panic \<Rightarrow> panic = InvalidWriteHeaderCode 0
    | Inr w' \<Rightarrow> False) \<and>
   (case fst (Error sample (New ''https://api.example.com'') NewResponseWriter [] 404 ''no such user''
         [None]) of
      Inl panic \<Rightarrow> panic = NilPointerDereference
    | Inr w' \<Rightarrow> False)"
proof -
  have f: "Error sample (New ''https://api.example.com'') NewResponseWriter [] 404 ''no such user''
             (map Some [\<lparr>Key = ''type'', Value = JString ''about:blank''\<rparr>]) =
           (write_problem sample NewResponseWriter 404
              (fallback_problem [] 404 ''no such user'' [\<lparr>Key = ''type'', Value = JString ''about:blank''\<rparr>]),
            New ''https://api.example.com'')"
    by (rule Error_fallback) (rule lookup_handler_New)
  have t: "fallback_problem [] 404 ''no such user'' [\<lparr>Key = ''type'', Value = JString ''about:blank''\<rparr>]
             ''type'' = Some (JString ''about:blank'')"
    by (simp add: fallback_problem_other last_value_def)
  have s204: "case fst (Error sample (New ''https://api.example.com'') NewResponseWriter [] 204
                ''no such user'' []) of
      Inl panic \<Rightarrow> False
    | Inr w' \<Rightarrow> rw_status w' = 204 \<and> rw_body w' = []"
    by code_simp
  have s0: "case fst (Error sample (New ''https://api.example.com'') NewResponseWriter [] 0
                ''no such user'' []) of
      Inl panic \<Rightarrow> panic = InvalidWriteHeaderCode 0
    | Inr w' \<Rightarrow> False"
    by code_simp
  have n: "case fst (Error sample (New ''https://api.example.com'') NewResponseWriter [] 404
                ''no such user'' [None]) of
      Inl panic \<Rightarrow> panic = NilPointerDereference
    | Inr w' \<Rightarrow> False"
    by code_simp
  from f t s204 s0 n show ?thesis
    by (simp add: Ext_def write_problem_New lookup_handler_New)
qed

text \<open>
  C3, amended. A registry made by \<^verbatim>\<open>New\<close> has no title registered. For every title
  that is not in the handlers map and every list of extensions none of which is nil (their
  values JSON-serialisable, as everywhere in the model), the
  fallback of \<^verbatim>\<open>Error\<close> builds a problem to which it adds no \<^verbatim>\<open>type\<close>: the problem
  has one only when an extension has this key, and none otherwise; its \<^verbatim>\<open>title\<close> is the
  status text of the status code when the given title is empty, the given title otherwise.
  On a fresh writer, for a status code from 200 to 999 other than 204 and 304, \<^verbatim>\<open>Error\<close>
  returns and the response is whole: the status is the given one and the body is the
  encoding of that problem.
\<close>

theorem fallback_response:
  "lookup_handler (New url) title = None \<and>
   (lookup_handler r title = None \<longrightarrow>
      Error lib r w title status detail (map Some extensions) =
        (write_problem lib w status (fallback_problem title status detail extensions), r) \<and>
      fallback_problem title status detail extensions ''type'' = last_value ''type'' extensions \<and>
      (list_all (\<lambda>e. Key e \<noteq> ''type'') extensions \<longrightarrow>
         fallback_problem title status detail extensions ''type'' = None) \<and>
      fallback_problem title status detail extensions ''title'' =
        Some (JString (if title = [] then StatusText status else title)) \<and>
      (fresh w \<and> 200 \<le> status \<and> status \<le> 999 \<and> status \<noteq> 204 \<and> status \<noteq> 304 \<longrightarrow>
         (case fst (Error lib r w title status detail (map Some extensions)) of
            Inl panic \<Rightarrow> False
          | Inr w' \<Rightarrow>
              rw_wroteHeader w' \<and> rw_status w' = status \<and>
              rw_body w' =
                rw_body w @ json_Encode lib [] ''  '' (fallback_problem title status detail extensions))))"
  by (simp add: lookup_handler_New Error_fallback write_problem_fresh fallback_problem_reserved
      fallback_problem_other last_value_None)

text \<open>The empty title with status 404 and an extension that is not \<^verbatim>\<open>type\<close>.\<close>

theorem fallback_response_witness:
  "lookup_handler (New ''https://api.example.com'') [] = None \<and>
   fresh NewResponseWriter \<and>
   (case fst (Error sample (New ''https://api.example.com'') NewResponseWriter [] 404 ''no such user''
         [Ext ''trace'' (JString ''t1'')]) of
      Inl panic \<Rightarrow> False
    | Inr w' \<Rightarrow>
        rw_wroteHeader w' \<and> rw_status w' = 404 \<and>
        rw_body w' = json_Encode sample [] ''  ''
          (fallback_problem [] 404 ''no such user'' [\<lparr>Key = ''trace'', Value = JString ''t1''\<rparr>])) \<and>
   fallback_problem [] 404 ''no such user'' [\<lparr>Key = ''trace'', Value = JString ''t1''\<rparr>] ''type'' = None \<and>
   fallback_problem [] 404 ''no such user'' [\<lparr>Key = ''trace'', Value = JString ''t1''\<rparr>] ''title'' =
     Some (JString ''Not Found'')"
proof -
  have l: "lookup_handler (New ''https://api.example.com'') [] = None"
    by code_simp
  have t: "StatusText 404 = ''Not Found''"
    by code_simp
  from fallback_response [of "''https://api.example.com''" "[]" "New ''https://api.example.com''"
      sample NewResponseWriter 404 "''no such user''" "[\<lparr>Key = ''trace'', Value = JString ''t1''\<rparr>]"]
  show ?thesis
    by (simp add: l t fresh_New Ext_def NewResponseWriter_fields last_value_def write_problem_New)
qed

subsection \<open>The content type is set after the header is written\<close>

text \<open>
  C2. Both paths of a dispatch call \<^verbatim>\<open>WriteHeader\<close> first and set \<^verbatim>\<open>Content-Type\<close>
  afterwards. Whenever the dispatch returns, the content type is in the header map
  (\<open>rw_header\<close>), and the header that was sent with the final status (\<open>rw_sent\<close>) is the
  header map as it stood before the call; only after an informational status (1xx other
  than 101), which leaves the final header to \<^verbatim>\<open>Write\<close>, does it hold the content type.
  On a fresh writer with status 404 the status and the body are as the claim says, and no
  \<^verbatim>\<open>Content-Type\<close> set by the dispatch is sent.
\<close>

theorem problem_content_type_not_sent:
  "(case problemHandler_call lib h w status detail (map Some extensions) of
      Inl panic \<Rightarrow> True
    | Inr w' \<Rightarrow>
        rw_sent w' =
          (if rw_wroteHeader w then rw_sent w
           else if 100 \<le> status \<and> status \<le> 199 \<and> status \<noteq> 101
             then (rw_header w)(''Content-Type'' \<mapsto> ''application/problem+json; charset=utf-8'')
           else rw_header w) \<and>
        rw_header w' ''Content-Type'' = Some ''application/problem+json; charset=utf-8'') \<and>
   (case fst (Error lib r w title status detail (map Some extensions)) of
      Inl panic \<Rightarrow> True
    | Inr w' \<Rightarrow>
        rw_sent w' =
          (if rw_wroteHeader w then rw_sent w
           else if 100 \<le> status \<and> status \<le> 199 \<and> status \<noteq> 101
             then (rw_header w)(''Content-Type'' \<mapsto> ''application/problem+json; charset=utf-8'')
           else rw_header w) \<and>
        rw_header w' ''Content-Type'' = Some ''application/problem+json; charset=utf-8'') \<and>
   (case fst (Error sample (New ''https://api.example.com'') NewResponseWriter ''NotFound'' 404
         ''no such user'' []) of
      Inl panic \<Rightarrow> False
    | Inr w' \<Rightarrow>
        rw_status w' = 404 \<and>
        rw_body w' = json_Encode sample [] ''  '' (fallback_problem ''NotFound'' 404 ''no such user'' []) \<and>
        rw_header w' ''Content-Type'' = Some ''application/problem+json; charset=utf-8'' \<and>
        rw_sent w' ''Content-Type'' = None)"
proof -
  have a: "case write_problem lib w status problem of
             Inl panic \<Rightarrow> True
           | Inr w' \<Rightarrow>
               rw_sent w' =
                 (if rw_wroteHeader w then rw_sent w
                  else if 100 \<le> status \<and> status \<le> 199 \<and> status \<noteq> 101
                    then (rw_header w)(''Content-Type'' \<mapsto> ''application/problem+json; charset=utf-8'')
                  else rw_header w) \<and>
               rw_header w' ''Content-Type'' = Some ''application/problem+json; charset=utf-8''"
    for problem
    using write_problem_sent [of lib w status problem]
    by (cases "write_problem lib w status problem") simp_all
  have b: "fst (Error lib r w title status detail (map Some extensions)) =
             write_problem lib w status
               (case lookup_handler r title of
                  None \<Rightarrow> fallback_problem title status detail extensions
                | Some h' \<Rightarrow> closure_problem h' status detail extensions)"
    by (cases "lookup_handler r title")
      (simp_all add: Error_fallback Error_registered problemHandler_call_eq)
  have c: "Error sample (New ''https://api.example.com'') NewResponseWriter ''NotFound'' 404
             ''no such user'' (map Some []) =
           (write_problem sample NewResponseWriter 404
              (fallback_problem ''NotFound'' 404 ''no such user'' []), New ''https://api.example.com'')"
    by (rule Error_fallback) (rule lookup_handler_New)
  have d: "case fst (Error sample (New ''https://api.example.com'') NewResponseWriter ''NotFound'' 404
         ''no such user'' []) of
      Inl panic \<Rightarrow> False
    | Inr w' \<Rightarrow>
        rw_status w' = 404 \<and>
        rw_body w' = json_Encode sample [] ''  '' (fallback_problem ''NotFound'' 404 ''no such user'' []) \<and>
        rw_header w' ''Content-Type'' = Some ''application/problem+json; charset=utf-8'' \<and>
        rw_sent w' ''Content-Type'' = None"
    using c by (simp add: write_problem_New NewResponseWriter_fields)
  show ?thesis
    using a d by (simp add: problemHandler_call_eq b)
qed

text \<open>
  C7. The handler of a documentation route has the same order of calls. It always
  returns, and the header it sends is the header map as it stood before the call. On a
  fresh writer it sends status 200 and the registered bytes as the body; a GET request to
  the path of a registered title gets these, and the content type
  \<^verbatim>\<open>text/html; charset=utf-8\<close> is set in the header map after the header was sent, and
  is not part of it.
\<close>

theorem doc_content_type_not_sent:
  "map_sum id rw_sent (doc_handler html w) = Inr (if rw_wroteHeader w then rw_sent w else rw_header w) \<and>
   doc_handler html NewResponseWriter =
     Inr (NewResponseWriter
            \<lparr>rw_header := [''Content-Type'' \<mapsto> ''text/html; charset=utf-8''],
             rw_wroteHeader := True, rw_status := 200,
             rw_written := int (length html), rw_body := html\<rparr>) \<and>
   (case fst (ServeHTTP (snd (HtmlDoc sample (New ''https://api.example.com'') ''Teapot'' ''short and stout''))
         NewResponseWriter \<lparr>Method = ''GET'', RequestPath = ''/Teapot.html''\<rparr>) of
      Inl e \<Rightarrow> False
    | Inr w' \<Rightarrow>
        rw_status w' = 200 \<and> rw_body w' = ''short and stout'' \<and>
        rw_header w' ''Content-Type'' = Some ''text/html; charset=utf-8'' \<and>
        rw_sent w' ''Content-Type'' = None)"
proof -
  have a: "map_sum id rw_sent (doc_handler html w) =
             Inr (if rw_wroteHeader w then rw_sent w else rw_header w)"
    by (cases "rw_wroteHeader w")
      (simp_all add: doc_handler_def WriteHeader_cases Write_fields Header_Set_def finalHeader_fields)
  have b: "doc_handler html NewResponseWriter =
     Inr (NewResponseWriter
            \<lparr>rw_header := [''Content-Type'' \<mapsto> ''text/html; charset=utf-8''],
             rw_wroteHeader := True, rw_status := 200,
             rw_written := int (length html), rw_body := html\<rparr>)"
    by (cases "html = []")
      (simp_all add: doc_handler_def WriteHeader_def finalHeader_def Write_def Header_Set_def
        bodyAllowedForStatus_def Let_def NewResponseWriter_def)
  have c: "(case fst (ServeHTTP (snd (HtmlDoc sample (New ''https://api.example.com'') ''Teapot'' ''short and stout''))
         NewResponseWriter \<lparr>Method = ''GET'', RequestPath = ''/Teapot.html''\<rparr>) of
      Inl e \<Rightarrow> False
    | Inr w' \<Rightarrow>
        rw_status w' = 200 \<and> rw_body w' = ''short and stout'' \<and>
        rw_header w' ''Content-Type'' = Some ''text/html; charset=utf-8'' \<and>
        rw_sent w' ''Content-Type'' = None)"
    by code_simp
  from a b c show ?thesis by simp
qed

end
